theory Spec2Isabelle
  imports Main "HOL-Library.Word" "HOL-Library.Sublist" "HOL-Library.AList" "HOL-Library.DAList"
begin

section \<open>JavaScript values used by transform-module.js\<close>

text \<open>
  A JavaScript object is modelled by the list of its own enumerable properties in the
  order \<open>Object.keys\<close> enumerates them. The \<open>variants\<close> option, an object handed in
  by the caller, has type \<open>(string, json) alist\<close>: an entry list whose names are distinct.
  The values of \<open>variants\<close> and the values \<open>JSON.parse\<close> returns are \<open>json\<close> values; a
  number is kept as its literal text, since the code computes with none.
\<close>

datatype json =
    JNull
  | JBool bool
  | JNumber string
  | JString string
  | JArray "json list"
  | JObject "(string \<times> json) list"

datatype js_error = SyntaxError | TypeError

type_synonym 'v object = "(string \<times> 'v) list"

text \<open>
  \<open>obj[key] = value\<close> on an object made by \<open>{}\<close>, for a value that is an object, a
  function or \<open>null\<close> (the code assigns no other): an existing property keeps its place, a
  new one goes last. (The code assigns the keys of one object, in their \<open>Object.keys\<close>
  order, to an empty object, so integer-like names, which JavaScript enumerates first,
  arrive first.) Under the name \<open>__proto__\<close> the assignment runs the setter inherited from
  \<open>Object.prototype\<close>: it replaces the prototype of the object and makes no own property.
  The model keeps the own properties only.
\<close>

definition assign :: "string \<Rightarrow> 'v \<Rightarrow> 'v object \<Rightarrow> 'v object" where
  "assign key v obj = (if key = ''__proto__'' then obj else AList.update key v obj)"

definition Object_keys :: "'v object \<Rightarrow> string list" where
  "Object_keys obj = List.map fst obj"

text \<open>
  \<open>value.key\<close> for the property names the code reads (\<open>name\<close>, \<open>main\<close>, \<open>browser\<close>,
  \<open>react-native\<close>): reading a property of \<open>null\<close> throws a TypeError; numbers, booleans,
  strings and arrays have no property of these names; \<open>None\<close> is \<open>undefined\<close>.
\<close>

fun get_property :: "json \<Rightarrow> string \<Rightarrow> js_error + json option" where
  "get_property JNull key = Inl TypeError"
| "get_property (JObject props) key = Inr (map_of props key)"
| "get_property v key = Inr None"

definition endsWith :: "string \<Rightarrow> string \<Rightarrow> bool" where
  "endsWith s searchString = suffix searchString s"

fun join :: "string \<Rightarrow> string list \<Rightarrow> string" where
  "join sep [] = []"
| "join sep [x] = x"
| "join sep (x # y # ys) = x @ sep @ join sep (y # ys)"

text \<open>\<open>path.basename\<close> on POSIX paths: the part after the last slash, trailing slashes dropped.\<close>

definition basename :: "string \<Rightarrow> string" where
  "basename p = rev (takeWhile (\<lambda>c. c \<noteq> CHR ''/'') (dropWhile (\<lambda>c. c = CHR ''/'') (rev p)))"

section \<open>Base64\<close>

text \<open>
  Modelled from the spec: \<open>Buffer.toString('base64')\<close> is a function of the Node.js
  runtime and not under src/; the spec calls it a base64-style text encoding of the bytes.
  It is modelled as RFC 4648 base64: the standard alphabet, three bytes to four
  characters, \<open>=\<close> padding. \<open>base64_decode\<close> is the strict inverse reading of such a text.
\<close>

definition base64_alphabet :: string where
  "base64_alphabet = ''ABCDEFGHIJKLMNOPQRSTUVWXYZabcdefghijklmnopqrstuvwxyz0123456789+/''"

definition base64_char :: "nat \<Rightarrow> char" where
  "base64_char n = base64_alphabet ! (n mod 64)"

definition base64_value :: "char \<Rightarrow> nat option" where
  "base64_value c = map_of (zip base64_alphabet [0..<64]) c"

fun base64_encode :: "8 word list \<Rightarrow> string" where
  "base64_encode [] = []"
| "base64_encode [a] =
     [base64_char (unat a div 4), base64_char (unat a mod 4 * 16), CHR ''='', CHR ''='']"
| "base64_encode [a, b] =
     [base64_char (unat a div 4), base64_char (unat a mod 4 * 16 + unat b div 16),
      base64_char (unat b mod 16 * 4), CHR ''='']"
| "base64_encode (a # b # c # bs) =
     [base64_char (unat a div 4), base64_char (unat a mod 4 * 16 + unat b div 16),
      base64_char (unat b mod 16 * 4 + unat c div 64), base64_char (unat c mod 64)]
     @ base64_encode bs"

fun base64_decode :: "string \<Rightarrow> 8 word list option" where
  "base64_decode [] = Some []"
| "base64_decode (w # x # y # z # cs) =
     (if y = CHR ''='' \<and> z = CHR ''='' \<and> cs = [] then
        (case (base64_value w, base64_value x) of
           (Some p, Some q) \<Rightarrow> Some [of_nat (p * 4 + q div 16)]
         | _ \<Rightarrow> None)
      else if z = CHR ''='' \<and> cs = [] then
        (case (base64_value w, base64_value x, base64_value y) of
           (Some p, Some q, Some r) \<Rightarrow>
             Some [of_nat (p * 4 + q div 16), of_nat (q mod 16 * 16 + r div 4)]
         | _ \<Rightarrow> None)
      else
        (case (base64_value w, base64_value x, base64_value y, base64_value z) of
           (Some p, Some q, Some r, Some s) \<Rightarrow>
             (case base64_decode cs of
                Some bs \<Rightarrow>
                  Some (of_nat (p * 4 + q div 16) # of_nat (q mod 16 * 16 + r div 4)
                        # of_nat (r mod 4 * 64 + s) # bs)
              | None \<Rightarrow> None)
         | _ \<Rightarrow> None))"
| "base64_decode cs = None"

section \<open>Syntax trees (babel-types)\<close>

text \<open>
  The builders \<open>t.identifier\<close>, \<open>t.callExpression\<close>, \<open>t.functionExpression\<close>,
  \<open>t.blockStatement\<close>, \<open>t.expressionStatement\<close>, \<open>t.program\<close> and \<open>t.file\<close> are the
  constructors below. \<open>Source\<close> stands for any other node of a transformer's tree.
  \<open>t.program(body)\<close> has no directives.
\<close>

datatype 's node =
    Identifier string
  | CallExpression "'s node" "'s node list"
  | FunctionExpression "'s node" "'s node list" "'s node"
  | BlockStatement "'s node list" "'s node list"
  | ExpressionStatement "'s node"
  | Source 's

datatype 's program = Program (body: "'s node list") (directives: "'s node list")

datatype 's ast = File (program: "'s program")

section \<open>Records of types.flow and the collaborators\<close>

record 's TransformerResult =
  ast :: "'s ast"

record ('e, 's) Transformer =
  transform :: "string \<Rightarrow> string \<Rightarrow> json \<Rightarrow> 'e + 's TransformerResult"

record ('e, 's) TransformOptions =
  filename :: string
  polyfill :: "bool option"
  transformer :: "('e, 's) Transformer"
  variants :: "(string, json) alist option"

record ('d, 'm) TransformResult =
  code :: string
  map' :: "'m option"
  dependencies :: "'d list"
  dependencyMapName :: "string option"

datatype file_type = Module | Script | Asset

record Package =
  name :: "json option"
  main :: "json option"
  browser :: "json option"
  react_native :: "json option"

record ('d, 'm) TransformedFile =
  assetContent :: "string option"
  code :: string
  "file" :: string
  hasteID :: "json option"
  transformed :: "('d, 'm) TransformResult object"
  type :: file_type
  package :: "Package option"

record 'm generated =
  gen_code :: string
  gen_map :: "'m option"

text \<open>
  The functions the module requires from elsewhere, taken as parameters:
  \<open>Buffer.toString('utf8')\<close>, \<open>JSON.parse\<close> (\<open>None\<close> when it throws a SyntaxError),
  \<open>collectDependencies\<close> (it rewrites the tree in place, so the tree comes back with the
  dependencies and the name of the dependency map), \<open>generate\<close>, and the two docblock
  functions. \<open>ToBoolean\<close> is the truth value JavaScript gives, in \<open>if (error)\<close>, to a value
  that a transformer throws: false for \<open>undefined\<close>, \<open>null\<close>, \<open>false\<close>, \<open>0\<close>, \<open>NaN\<close> and the
  empty string, true for every other value, so for every Error object. It is a parameter
  because the type of these values is left open.
\<close>

record ('s, 'd, 'm, 'e) externals =
  toString_utf8 :: "8 word list \<Rightarrow> string"
  ToBoolean :: "'e \<Rightarrow> bool"
  JSON_parse :: "string \<Rightarrow> json option"
  collectDependencies :: "'s ast \<Rightarrow> 'd list \<times> string \<times> 's ast"
  generate :: "'s ast \<Rightarrow> string \<Rightarrow> string \<Rightarrow> 'm generated"
  docblock_extract :: "string \<Rightarrow> string"
  docblock_parseAsObject :: "string \<Rightarrow> string object"

text \<open>
  What a call of \<open>transformModule\<close> does: it raises an exception that it hands to no
  callback (\<open>Throws\<close>, with the exception as the code raises it), or it calls
  \<open>callback(error)\<close>, or it calls \<open>callback(null, result)\<close>.
\<close>

datatype ('e, 'r) outcome = Throws js_error | CallbackError 'e | CallbackResult 'r

section \<open>async/series\<close>

text \<open>
  \<open>series(tasks, callback)\<close> of the async library, which the module requires as
  \<open>async/series\<close>, after the library's documentation: the functions of \<open>tasks\<close> run in
  series, each one once the previous one has completed; when one passes an error to its
  callback no more functions are run, and \<open>callback\<close> is called with that error; otherwise
  \<open>callback\<close> gets the results, for an object of tasks an object with the same keys.
  The library tests the error as \<open>if (err)\<close>: a task that passes a value that is not
  truthy in the place of the error does not end the run. Each task's second argument is
  stored under the key of the task, also when the first is an error.

  A task of \<open>transformModule\<close> calls its callback before it returns, as \<open>cb(null, result)\<close>
  or as \<open>cb(error, null)\<close>: it is a function to \<open>Inr result\<close> or \<open>Inl error\<close>, and what is
  stored for it is \<open>Some result\<close> or \<open>None\<close>, for \<open>null\<close>. The value of \<open>series\<close> is what
  the final callback gets, the error (\<open>None\<close> for \<open>null\<close>) and the results, after the list
  of the keys of the tasks that were run, in the order they ran.
\<close>

fun series_loop ::
  "('e \<Rightarrow> bool) \<Rightarrow> (unit \<Rightarrow> 'e + 'r) object \<Rightarrow> string list \<Rightarrow> 'r option object
   \<Rightarrow> string list \<times> 'e option \<times> 'r option object" where
  "series_loop truthy [] invoked results = (invoked, None, results)"
| "series_loop truthy ((key, task) # tasks) invoked results =
     (case task () of
        Inl err \<Rightarrow>
          if truthy err then (invoked @ [key], Some err, assign key None results)
          else series_loop truthy tasks (invoked @ [key]) (assign key None results)
      | Inr r \<Rightarrow> series_loop truthy tasks (invoked @ [key]) (assign key (Some r) results))"

definition series ::
  "('e \<Rightarrow> bool) \<Rightarrow> (unit \<Rightarrow> 'e + 'r) object
   \<Rightarrow> string list \<times> 'e option \<times> 'r option object" where
  "series truthy tasks = series_loop truthy tasks [] []"

section \<open>transform-module.js\<close>

definition defaultVariants :: "(string, json) alist" where
  "defaultVariants = DAList.update ''default'' (JObject []) DAList.empty"

text \<open>
  \<open>const {variants = defaultVariants} = options\<close> and \<open>options.variants || defaultVariants\<close>:
  the default stands in when the field is undefined (\<open>None\<close>); an object, also an empty
  one, is taken as it is.
\<close>

definition variants_or_default :: "('e, 's) TransformOptions \<Rightarrow> (string, json) alist" where
  "variants_or_default options =
     (case variants options of None \<Rightarrow> defaultVariants | Some vs \<Rightarrow> vs)"

text \<open>
  The variants that get a task: \<open>tasks[name] = ...\<close> makes an own property of \<open>tasks\<close> for
  every name but \<open>__proto__\<close>.
\<close>

definition tasked_variants :: "('e, 's) TransformOptions \<Rightarrow> (string \<times> json) list" where
  "tasked_variants options =
     filter (\<lambda>(nm, cfg). nm \<noteq> ''__proto__'') (DAList.impl_of (variants_or_default options))"

definition moduleFactoryParameters :: "string list" where
  "moduleFactoryParameters = [''global'', ''require'', ''module'', ''exports'']"

definition polyfillFactoryParameters :: "string list" where
  "polyfillFactoryParameters = [''global'']"

definition makeIdentifier :: "string \<Rightarrow> 's node" where
  "makeIdentifier nm = Identifier nm"

definition functionFromProgram :: "'s program \<Rightarrow> string list \<Rightarrow> 's node" where
  "functionFromProgram prog parameters =
     FunctionExpression (Identifier '''') (List.map makeIdentifier parameters)
       (BlockStatement (body prog) (directives prog))"

definition wrapModule :: "'s ast \<Rightarrow> string \<Rightarrow> 's ast" where
  "wrapModule tree depMapName =
     (let params = moduleFactoryParameters @ [depMapName];
          factory = functionFromProgram (program tree) params;
          def = CallExpression (Identifier ''__d'') [factory]
      in File (Program [ExpressionStatement def] []))"

definition wrapPolyfill :: "'s ast \<Rightarrow> 's ast" where
  "wrapPolyfill tree =
     (let factory = functionFromProgram (program tree) polyfillFactoryParameters;
          iife = CallExpression factory [Identifier ''this'']
      in File (Program [ExpressionStatement iife] []))"

text \<open>
  \<open>makeResult(ast, filename, sourceCode, isPolyfill = false)\<close>: the caller passes
  \<open>options.polyfill\<close>, which may be undefined (\<open>None\<close>); the default then applies.
\<close>

definition makeResult ::
  "('s, 'd, 'm, 'e) externals \<Rightarrow> 's ast \<Rightarrow> string \<Rightarrow> string \<Rightarrow> bool option \<Rightarrow> ('d, 'm) TransformResult" where
  "makeResult ext tree fname sourceCode polyfill_arg =
     (let isPolyfill = (case polyfill_arg of None \<Rightarrow> False | Some b \<Rightarrow> b)
      in if isPolyfill then
           (let gen = generate ext (wrapPolyfill tree) fname sourceCode
            in \<lparr>TransformResult.code = gen_code gen, map' = gen_map gen,
                dependencies = [], dependencyMapName = None\<rparr>)
         else
           (case collectDependencies ext tree of
              (deps, depMapName, tree') \<Rightarrow>
                (let gen = generate ext (wrapModule tree' depMapName) fname sourceCode
                 in \<lparr>TransformResult.code = gen_code gen, map' = gen_map gen,
                     dependencies = deps, dependencyMapName = Some depMapName\<rparr>)))"

definition transformAsset ::
  "8 word list \<Rightarrow> ('e, 's) TransformOptions \<Rightarrow> ('e, ('d, 'm) TransformedFile) outcome" where
  "transformAsset content options =
     CallbackResult
       \<lparr>assetContent = Some (base64_encode content), code = '''', file = filename options,
        hasteID = None, transformed = [], type = Asset, package = None\<rparr>"

text \<open>
  \<open>transformJSON\<close> has no try block: an exception of \<open>JSON.parse\<close> or of a property read
  leaves the function, and the callback is not called.
\<close>

definition json_code :: "string \<Rightarrow> string" where
  "json_code json =
     ''__d(function('' @ join '', '' moduleFactoryParameters @ '') { module.exports = ''
     @ [CHR 0x0A] @ json @ [CHR 0x0A] @ ''});''"

definition transformJSON ::
  "('s, 'd, 'm, 'e) externals \<Rightarrow> string \<Rightarrow> ('e, 's) TransformOptions
   \<Rightarrow> ('e, ('d, 'm) TransformedFile) outcome" where
  "transformJSON ext json options =
     (case JSON_parse ext json of
        None \<Rightarrow> Throws SyntaxError
      | Some v \<Rightarrow>
          (let fname = filename options;
               moduleData = \<lparr>TransformResult.code = json_code json, map' = None,
                             dependencies = [], dependencyMapName = None\<rparr>;
               tr = fold (\<lambda>key acc. assign key moduleData acc)
                      (Object_keys (DAList.impl_of (variants_or_default options))) []
           in case get_property v ''name'' of
                Inl err \<Rightarrow> Throws err
              | Inr v_name \<Rightarrow>
                  (let result = \<lparr>assetContent = None, code = json, file = fname,
                                  hasteID = v_name, transformed = tr, type = Module,
                                  package = None\<rparr>
                   in if basename fname = ''package.json'' then
                        (case (get_property v ''main'', get_property v ''browser'',
                               get_property v ''react-native'') of
                           (Inr v_main, Inr v_browser, Inr v_rn) \<Rightarrow>
                             CallbackResult
                               (result\<lparr>package := Some \<lparr>name = v_name, main = v_main,
                                  browser = v_browser, react_native = v_rn\<rparr>\<rparr>)
                         | _ \<Rightarrow> Throws TypeError)
                      else CallbackResult result)))"

text \<open>
  Lines 82 to 84 of \<open>transformModule\<close>, the loop over \<open>Object.entries(results)\<close>: for a
  value that is \<open>null\<close> the read of \<open>value.ast\<close> throws a TypeError.
\<close>

fun transformed_of ::
  "('s, 'd, 'm, 'e) externals \<Rightarrow> string \<Rightarrow> string \<Rightarrow> bool option
   \<Rightarrow> 's TransformerResult option object \<Rightarrow> ('d, 'm) TransformResult object
   \<Rightarrow> js_error + ('d, 'm) TransformResult object" where
  "transformed_of ext fname code' pf [] acc = Inr acc"
| "transformed_of ext fname code' pf ((key, v) # entries) acc =
     (case v of
        None \<Rightarrow> Inl TypeError
      | Some r \<Rightarrow>
          transformed_of ext fname code' pf entries
            (assign key (makeResult ext (ast r) fname code' pf) acc))"

text \<open>
  Whether a task hands a truthy error to its callback.
\<close>

definition raises :: "('e \<Rightarrow> bool) \<Rightarrow> 'e + 'r \<Rightarrow> bool" where
  "raises truthy x = (case x of Inl err \<Rightarrow> truthy err | Inr r \<Rightarrow> False)"

text \<open>
  Lines 57 to 97 of \<open>transformModule\<close>, the path of source code. The value is the pair of
  the variants whose transformer call was made, in order, and of what the caller sees.
  Each task catches the exception of \<open>transformer.transform\<close> and hands it to its
  callback, so a task is the sum value that the transformer gives. The loop over
  \<open>Object.keys(variants)\<close>, which reads \<open>variants[name]\<close> for each name, is a fold over
  the entries of \<open>variants\<close>. The final callback tests \<open>if (error)\<close> and returns after
  \<open>callback(error)\<close>; when the test fails it goes on (\<open>rest\<close>) to build \<open>transformed\<close>, and
  the TypeError of a \<open>null\<close> result is raised there, with no call of \<open>callback\<close>.
\<close>

definition transformVariants ::
  "('s, 'd, 'm, 'e) externals \<Rightarrow> string \<Rightarrow> ('e, 's) TransformOptions
   \<Rightarrow> string list \<times> ('e, ('d, 'm) TransformedFile) outcome" where
  "transformVariants ext code' options =
     (let fname = filename options;
          tasks = fold (\<lambda>(nm, cfg) acc.
                    assign nm (\<lambda>_. transform (transformer options) code' fname cfg) acc)
                  (DAList.impl_of (variants_or_default options)) []
      in case series (ToBoolean ext) tasks of
           (invoked, error, results) \<Rightarrow>
             (let rest =
                (case transformed_of ext fname code' (polyfill options) results [] of
                   Inl exn \<Rightarrow> Throws exn
                 | Inr tr \<Rightarrow>
                     (let annotations = docblock_parseAsObject ext (docblock_extract ext code')
                      in CallbackResult
                           \<lparr>assetContent = None, code = code', file = fname,
                            hasteID = (case map_of annotations ''providesModule'' of
                                         None \<Rightarrow> None
                                       | Some s \<Rightarrow> if s = [] then None else Some (JString s)),
                            transformed = tr,
                            type = (if polyfill options = Some True then Script else Module),
                            package = None\<rparr>))
              in (invoked,
                  case error of
                    Some err \<Rightarrow> if ToBoolean ext err then CallbackError err else rest
                  | None \<Rightarrow> rest)))"

text \<open>
  \<open>transformModule\<close>: the two tests on the file name, each with its early return, then
  the path of source code. The asset path and the JSON path call no transformer.
\<close>

definition transformModule ::
  "('s, 'd, 'm, 'e) externals \<Rightarrow> 8 word list \<Rightarrow> ('e, 's) TransformOptions
   \<Rightarrow> string list \<times> ('e, ('d, 'm) TransformedFile) outcome" where
  "transformModule ext content options =
     (if endsWith (filename options) ''.png'' then ([], transformAsset content options)
      else
        (let code' = toString_utf8 ext content
         in if endsWith (filename options) ''.json'' then ([], transformJSON ext code' options)
            else transformVariants ext code' options))"

section \<open>Example inputs\<close>

text \<open>
  Concrete collaborators and options on which the definitions are evaluated: an ASCII
  decoder, a parser that knows three texts, a transformer that throws strings: the string
  \<open>boom\<close> on the configuration \<open>{fail: true}\<close> and the empty string, which is not truthy,
  on \<open>{fail: ""}\<close>.
\<close>

definition ex_ext :: "(string, string, unit, string) externals" where
  \<open>ex_ext =
     \<lparr>toString_utf8 = List.map (\<lambda>w. char_of (unat w)),
      ToBoolean = (\<lambda>s. s \<noteq> ''''),
      JSON_parse = (\<lambda>s. if s = ''null'' then Some JNull
                         else if s = ''{"name":"pkg"}'' then Some (JObject [(''name'', JString ''pkg'')])
                         else if s = ''[]'' then Some (JArray [])
                         else None),
      collectDependencies = (\<lambda>tree. ([''dep''], ''_dependencyMap'', tree)),
      generate = (\<lambda>tree fname src. \<lparr>gen_code = ''generated'', gen_map = None\<rparr>),
      docblock_extract = (\<lambda>src. ''''),
      docblock_parseAsObject = (\<lambda>doc. [])\<rparr>\<close>

definition ex_transformer :: "(string, string) Transformer" where
  "ex_transformer =
     \<lparr>transform = (\<lambda>src fname cfg.
        if cfg = JObject [(''fail'', JBool True)] then Inl ''boom''
        else if cfg = JObject [(''fail'', JString '''')] then Inl ''''
        else Inr \<lparr>ast = File (Program [Source ''stmt''] [Source ''use strict''])\<rparr>)\<rparr>"

definition ex_options ::
  "string \<Rightarrow> bool option \<Rightarrow> (string, json) alist option \<Rightarrow> (string, string) TransformOptions" where
  "ex_options fname pf vs =
     \<lparr>filename = fname, polyfill = pf, transformer = ex_transformer, variants = vs\<rparr>"

definition ex_two_variants :: "(string, json) alist" where
  "ex_two_variants =
     DAList.update ''b'' (JObject []) (DAList.update ''a'' (JObject []) DAList.empty)"

definition ex_failing_variants :: "(string, json) alist" where
  "ex_failing_variants =
     DAList.update ''b'' (JObject [])
       (DAList.update ''a'' (JObject [(''fail'', JBool True)]) DAList.empty)"

definition ex_late_failure :: "(string, json) alist" where
  "ex_late_failure =
     DAList.update ''c'' (JObject [])
       (DAList.update ''b'' (JObject [(''fail'', JBool True)])
          (DAList.update ''a'' (JObject []) DAList.empty))"

definition ex_falsy_then_failure :: "(string, json) alist" where
  "ex_falsy_then_failure =
     DAList.update ''c'' (JObject [])
       (DAList.update ''b'' (JObject [(''fail'', JBool True)])
          (DAList.update ''a'' (JObject [(''fail'', JString '''')]) DAList.empty))"

definition ex_falsy_variant :: "(string, json) alist" where
  "ex_falsy_variant = DAList.update ''a'' (JObject [(''fail'', JString '''')]) DAList.empty"

definition ex_falsy_then_ok :: "(string, json) alist" where
  "ex_falsy_then_ok =
     DAList.update ''b'' (JObject [])
       (DAList.update ''a'' (JObject [(''fail'', JString '''')]) DAList.empty)"

definition ex_proto_variant :: "(string, json) alist" where
  "ex_proto_variant = DAList.update ''__proto__'' (JObject []) DAList.empty"

definition ex_proto_and_main :: "(string, json) alist" where
  "ex_proto_and_main =
     DAList.update ''main'' (JObject []) (DAList.update ''__proto__'' (JObject []) DAList.empty)"

section \<open>Evaluation on the example inputs\<close>

lemmas ex_eval =
  ex_ext_def ex_transformer_def ex_options_def ex_two_variants_def ex_failing_variants_def
  ex_late_failure_def ex_falsy_then_failure_def ex_falsy_variant_def ex_falsy_then_ok_def
  ex_proto_variant_def ex_proto_and_main_def
  variants_or_default_def defaultVariants_def tasked_variants_def raises_def
  DAList.update.rep_eq DAList.empty.rep_eq endsWith_def suffix_to_prefix Object_keys_def

section \<open>Base64 decoding inverts encoding\<close>

lemma base64_alphabet_distinct: "distinct base64_alphabet"
  by (simp add: base64_alphabet_def)

lemma base64_alphabet_length: "length base64_alphabet = 64"
  by (simp add: base64_alphabet_def)

lemma base64_value_char: "n < 64 \<Longrightarrow> base64_value (base64_char n) = Some n"
  unfolding base64_value_def base64_char_def
  using map_of_zip_nth[of base64_alphabet "[0..<64]" n] base64_alphabet_distinct
  by (simp add: base64_alphabet_length)

lemma base64_char_not_pad: "base64_char n \<noteq> CHR ''=''"
proof -
  have "CHR ''='' \<notin> set base64_alphabet"
    by (simp add: base64_alphabet_def)
  moreover have "base64_char n \<in> set base64_alphabet"
    unfolding base64_char_def by (rule nth_mem) (simp add: base64_alphabet_length)
  ultimately show ?thesis by metis
qed

lemma div_bound: "y < k * n \<Longrightarrow> y div n < (k::nat)"
  by (simp add: less_mult_imp_div_less)

lemma sextet_bounds:
  "x < 256 \<Longrightarrow> x div 4 < (64::nat)"
  "y < 256 \<Longrightarrow> x mod 4 * 16 + y div 16 < (64::nat)"
  "z < 256 \<Longrightarrow> y mod 16 * 4 + z div 64 < (64::nat)"
  "x mod 4 * 16 < (64::nat)"
  "y mod 16 * 4 < (64::nat)"
proof -
  have a: "x mod 4 < 4" and b: "y mod 16 < 16" by simp_all
  show "x < 256 \<Longrightarrow> x div 4 < 64" by (rule div_bound) simp
  show "x mod 4 * 16 < 64" using a by linarith
  show "y mod 16 * 4 < 64" using b by linarith
  { assume "y < 256" then have "y div 16 < 16" by (intro div_bound) simp
    then show "x mod 4 * 16 + y div 16 < 64" using a by linarith }
  { assume "z < 256" then have "z div 64 < 4" by (intro div_bound) simp
    then show "y mod 16 * 4 + z div 64 < 64" using b by linarith }
qed

lemma octet_1:
  assumes "y < 256" shows "x div 4 * 4 + (x mod 4 * 16 + y div 16) div 16 = (x::nat)"
proof -
  have "y div 16 < 16" using assms by (intro div_bound) simp
  then have "(x mod 4 * 16 + y div 16) div 16 = x mod 4" by simp
  then show ?thesis by simp
qed

lemma octet_2:
  assumes "y < 256" "z < 256"
  shows "(x mod 4 * 16 + y div 16) mod 16 * 16 + (y mod 16 * 4 + z div 64) div 4 = (y::nat)"
proof -
  have "z div 64 < 4" using assms by (intro div_bound) simp
  then have "(y mod 16 * 4 + z div 64) div 4 = y mod 16" by simp
  moreover have "y div 16 < 16" using assms by (intro div_bound) simp
  then have "(x mod 4 * 16 + y div 16) mod 16 = y div 16" by simp
  ultimately show ?thesis by simp
qed

lemma octet_3:
  assumes "z < 256" shows "(y mod 16 * 4 + z div 64) mod 4 * 64 + z mod 64 = (z::nat)"
proof -
  have "z div 64 < 4" using assms by (intro div_bound) simp
  then have "(y mod 16 * 4 + z div 64) mod 4 = z div 64" by simp
  then show ?thesis by simp
qed

lemma unat_byte: "unat (a :: 8 word) < 256"
  using unsigned_less[of a] by simp

lemma base64_roundtrip: "base64_decode (base64_encode bs) = Some bs"
proof (induction bs rule: base64_encode.induct)
  case 1
  show ?case by simp
next
  case (2 a)
  have "unat a div 4 * 4 + (unat a mod 4 * 16 + 0 div 16) div 16 = unat a"
    by (rule octet_1) simp
  then show ?case
    by (simp add: base64_value_char sextet_bounds unat_byte)
next
  case (3 a b)
  have "unat a div 4 * 4 + (unat a mod 4 * 16 + unat b div 16) div 16 = unat a"
    by (rule octet_1) (rule unat_byte)
  moreover have "(unat a mod 4 * 16 + unat b div 16) mod 16 * 16
      + (unat b mod 16 * 4 + 0 div 64) div 4 = unat b"
    by (rule octet_2) (simp_all add: unat_byte)
  ultimately show ?case
    by (simp add: base64_value_char sextet_bounds unat_byte base64_char_not_pad)
next
  case (4 a b c bs)
  have "unat a div 4 * 4 + (unat a mod 4 * 16 + unat b div 16) div 16 = unat a"
    by (rule octet_1) (rule unat_byte)
  moreover have "(unat a mod 4 * 16 + unat b div 16) mod 16 * 16
      + (unat b mod 16 * 4 + unat c div 64) div 4 = unat b"
    by (rule octet_2) (simp_all add: unat_byte)
  moreover have "(unat b mod 16 * 4 + unat c div 64) mod 4 * 64 + unat c mod 64 = unat c"
    by (rule octet_3) (rule unat_byte)
  ultimately show ?case using 4
    by (simp add: base64_value_char sextet_bounds unat_byte base64_char_not_pad)
qed

section \<open>Objects built by assignment\<close>

text \<open>
  Assigning under names that are distinct and new builds the entries in the order of the
  assignments, the name \<open>__proto__\<close> left out.
\<close>

lemma assign_proto: "assign ''__proto__'' v obj = obj"
  by (simp add: assign_def)

lemma assign_fresh:
  "key \<noteq> ''__proto__'' \<Longrightarrow> key \<notin> fst ` set obj \<Longrightarrow> assign key v obj = obj @ [(key, v)]"
  by (induction obj) (auto simp add: assign_def)

lemma fold_assign_fresh:
  "distinct (List.map kf xs) \<Longrightarrow> kf ` set xs \<inter> fst ` set acc = {}
   \<Longrightarrow> fold (\<lambda>x. assign (kf x) (vf x)) xs acc
       = acc @ List.map (\<lambda>x. (kf x, vf x)) (filter (\<lambda>x. kf x \<noteq> ''__proto__'') xs)"
proof (induction xs arbitrary: acc)
  case Nil
  show ?case by simp
next
  case (Cons x xs)
  show ?case
  proof (cases "kf x = ''__proto__''")
    case True
    have "kf ` set xs \<inter> fst ` set acc = {}" using Cons.prems by auto
    with Cons.IH [of acc] Cons.prems True show ?thesis
      by (simp add: assign_proto)
  next
    case False
    from Cons.prems have fresh: "kf x \<notin> fst ` set acc" by auto
    have "kf ` set xs \<inter> fst ` set (acc @ [(kf x, vf x)]) = {}"
      using Cons.prems by auto
    with Cons.IH [of "acc @ [(kf x, vf x)]"] Cons.prems False
    show ?thesis by (simp add: assign_fresh [OF False fresh])
  qed
qed

lemma fold_assign_entries:
  assumes "distinct (List.map fst xs)"
  shows "fold (\<lambda>(k, v). assign k (g k v)) xs []
         = List.map (\<lambda>(k, v). (k, g k v)) (filter (\<lambda>(k, v). k \<noteq> ''__proto__'') xs)"
  using fold_assign_fresh [of fst xs "[]" "\<lambda>x. g (fst x) (snd x)"] assms
  by (simp add: case_prod_unfold)

lemma fold_assign_keys:
  "distinct ks \<Longrightarrow> fold (\<lambda>key acc. assign key m acc) ks []
     = List.map (\<lambda>key. (key, m)) (filter (\<lambda>key. key \<noteq> ''__proto__'') ks)"
  using fold_assign_fresh [of "\<lambda>k. k" ks "[]" "\<lambda>k. m"] by simp

section \<open>The run of a series\<close>

lemma series_loop_no_truthy:
  "\<forall>(k, t) \<in> set ts. \<not> raises truthy (t ()) \<Longrightarrow> distinct (List.map fst ts)
   \<Longrightarrow> ''__proto__'' \<notin> fst ` set ts \<Longrightarrow> fst ` set ts \<inter> fst ` set res = {}
   \<Longrightarrow> series_loop truthy ts seen res
       = (seen @ List.map fst ts, None,
          res @ List.map (\<lambda>(k, t). (k, case t () of Inl err \<Rightarrow> None | Inr r \<Rightarrow> Some r)) ts)"
proof (induction ts arbitrary: seen res)
  case Nil
  show ?case by simp
next
  case (Cons kt ts)
  obtain k t where kt: "kt = (k, t)" by (cases kt)
  from Cons.prems kt have fresh: "k \<notin> fst ` set res" and k: "k \<noteq> ''__proto__''" by auto
  define v where "v = (case t () of Inl err \<Rightarrow> None | Inr r \<Rightarrow> Some r)"
  have step: "series_loop truthy (kt # ts) seen res
      = series_loop truthy ts (seen @ [k]) (res @ [(k, v)])"
    using Cons.prems(1) kt
    by (cases "t ()") (simp_all add: v_def raises_def assign_fresh [OF k fresh])
  have "fst ` set ts \<inter> fst ` set (res @ [(k, v)]) = {}"
    using Cons.prems kt by auto
  with Cons.IH [of "res @ [(k, v)]" "seen @ [k]"] Cons.prems
  show ?case unfolding step by (simp add: kt v_def)
qed


lemma transformed_of_all_some:
  "\<forall>(k, v) \<in> set es. v \<noteq> None \<Longrightarrow> distinct (List.map fst es)
   \<Longrightarrow> ''__proto__'' \<notin> fst ` set es \<Longrightarrow> fst ` set es \<inter> fst ` set acc = {}
   \<Longrightarrow> transformed_of ext fname src pf es acc
       = Inr (acc @ List.map (\<lambda>(k, v). (k, makeResult ext (ast (the v)) fname src pf)) es)"
proof (induction es arbitrary: acc)
  case Nil
  show ?case by simp
next
  case (Cons kv es)
  obtain k v where kv: "kv = (k, v)" by (cases kv)
  from Cons.prems kv obtain r where r: "v = Some r" by auto
  from Cons.prems kv have fresh: "k \<notin> fst ` set acc" and k: "k \<noteq> ''__proto__''" by auto
  have "fst ` set es \<inter> fst ` set (acc @ [(k, makeResult ext (ast r) fname src pf)]) = {}"
    using Cons.prems kv by auto
  with Cons.IH [of "acc @ [(k, makeResult ext (ast r) fname src pf)]"] Cons.prems
  show ?case by (simp add: kv r assign_fresh [OF k fresh])
qed


section \<open>The path of source code\<close>

text \<open>
  The tasks of \<open>transformModule\<close> are one per variant that gets a task, in the order of
  the keys. When every transformer call returns, the result has one entry per task, made
  by \<open>makeResult\<close> from the tree of that variant; when a call throws a truthy value, the
  outcome is \<open>callback(error)\<close> with that value and the run ends there; a thrown value
  that is not truthy leaves \<open>null\<close> among the results and the run goes on.
\<close>

lemma tasked_variants_keys:
  "distinct (List.map fst (tasked_variants options))"
  "''__proto__'' \<notin> fst ` set (tasked_variants options)"
  "set (tasked_variants options) \<subseteq> set (DAList.impl_of (variants_or_default options))"
  by (auto simp add: tasked_variants_def distinct_map_filter)

lemma variant_tasks:
  "fold (\<lambda>(nm, cfg) acc. assign nm (\<lambda>_::unit. tf cfg) acc)
     (DAList.impl_of (variants_or_default options)) []
   = List.map (\<lambda>(nm, cfg). (nm, \<lambda>_. tf cfg)) (tasked_variants options)"
  using fold_assign_entries [of "DAList.impl_of (variants_or_default options)" "\<lambda>nm cfg _. tf cfg"]
  by (simp add: tasked_variants_def)

lemma series_variant_tasks:
  assumes "\<forall>(nm, cfg) \<in> set (tasked_variants options). \<not> raises truthy (tf cfg)"
  shows "series truthy (List.map (\<lambda>(nm, cfg). (nm, \<lambda>_::unit. tf cfg)) (tasked_variants options))
         = (List.map fst (tasked_variants options), None,
            List.map (\<lambda>(nm, cfg). (nm, case tf cfg of Inl err \<Rightarrow> None | Inr r \<Rightarrow> Some r))
              (tasked_variants options))"
proof -
  define tv where "tv = tasked_variants options"
  define tasks where "tasks = List.map (\<lambda>(nm :: string, cfg). (nm, \<lambda>_::unit. tf cfg)) tv"
  have keys: "List.map fst tasks = List.map fst tv"
    by (simp add: tasks_def comp_def case_prod_beta)
  have d: "distinct (List.map fst tasks)" and p: "''__proto__'' \<notin> fst ` set tasks"
    using tasked_variants_keys(1,2) [of options] keys
    by (simp_all add: tv_def [symmetric] flip: set_map)
  have "\<forall>(k, t) \<in> set tasks. \<not> raises truthy (t ())"
    using assms by (auto simp add: tasks_def tv_def)
  then have "series_loop truthy tasks [] []
      = ([] @ List.map fst tasks, None,
         [] @ List.map (\<lambda>(k, t). (k, case t () of Inl err \<Rightarrow> None | Inr r \<Rightarrow> Some r)) tasks)"
    using d p by (rule series_loop_no_truthy) simp
  then show ?thesis
    unfolding tv_def [symmetric] tasks_def [symmetric]
    by (simp add: series_def keys) (simp add: tasks_def comp_def case_prod_beta)
qed

lemma transformVariants_all_return:
  assumes ok: "\<forall>(nm, cfg) \<in> set (tasked_variants options).
                 \<not> isl (transform (transformer options) src (filename options) cfg)"
  shows "\<exists>r. transformVariants ext src options
               = (List.map fst (tasked_variants options), CallbackResult r)
           \<and> transformed r
               = List.map (\<lambda>(nm, cfg).
                   (nm, makeResult ext
                          (ast (projr (transform (transformer options) src (filename options) cfg)))
                          (filename options) src (polyfill options)))
                   (tasked_variants options)
           \<and> type r = (if polyfill options = Some True then Script else Module)
           \<and> code r = src \<and> assetContent r = None \<and> file r = filename options"
proof -
  define tv where "tv = tasked_variants options"
  define tf where "tf = transform (transformer options) src (filename options)"
  define results where
    "results = List.map (\<lambda>(nm :: string, cfg). (nm, case tf cfg of Inl err \<Rightarrow> None | Inr r \<Rightarrow> Some r)) tv"
  have "\<forall>(nm, cfg) \<in> set (tasked_variants options). \<not> raises (ToBoolean ext) (tf cfg)"
    using ok by (auto simp add: raises_def tf_def split: sum.splits)
  from series_variant_tasks [OF this]
  have s: "series (ToBoolean ext) (List.map (\<lambda>(nm, cfg). (nm, \<lambda>_::unit. tf cfg)) tv)
      = (List.map fst tv, None, results)"
    by (simp add: tv_def results_def)
  have keys: "List.map fst results = List.map fst tv"
    by (simp add: results_def comp_def case_prod_beta)
  have d: "distinct (List.map fst results)" and p: "''__proto__'' \<notin> fst ` set results"
    using tasked_variants_keys(1,2) [of options] keys
    by (simp_all add: tv_def [symmetric] flip: set_map)
  have inr: "\<exists>r. tf cfg = Inr r" if "(nm, cfg) \<in> set tv" for nm cfg
  proof -
    from ok that have "\<not> isl (tf cfg)" unfolding tv_def tf_def by blast
    then show ?thesis by (cases "tf cfg") simp_all
  qed
  have "\<forall>(k, v) \<in> set results. v \<noteq> None"
    by (auto simp add: results_def dest!: inr)
  then have "transformed_of ext (filename options) src (polyfill options) results []
      = Inr ([] @ List.map (\<lambda>(k, v).
            (k, makeResult ext (ast (the v)) (filename options) src (polyfill options))) results)"
    using d p by (rule transformed_of_all_some) simp
  moreover have "List.map (\<lambda>(k, v).
        (k, makeResult ext (ast (the v)) (filename options) src (polyfill options))) results
      = List.map (\<lambda>(nm, cfg).
          (nm, makeResult ext (ast (projr (tf cfg))) (filename options) src (polyfill options))) tv"
    by (auto simp add: results_def comp_def case_prod_beta dest!: inr)
  ultimately have t: "transformed_of ext (filename options) src (polyfill options) results []
      = Inr (List.map (\<lambda>(nm, cfg).
          (nm, makeResult ext (ast (projr (tf cfg))) (filename options) src (polyfill options))) tv)"
    by simp
  show ?thesis
    unfolding transformVariants_def Let_def variant_tasks
    using s t by (simp add: tv_def [symmetric] tf_def [symmetric])
qed



section \<open>The choice of the path\<close>

lemma png_not_json: "\<not> (endsWith f ''.png'' \<and> endsWith f ''.json'')"
proof
  assume "endsWith f ''.png'' \<and> endsWith f ''.json''"
  then obtain xs ys where "f = xs @ ''.png''" "f = ys @ ''.json''"
    by (auto simp add: endsWith_def suffix_def)
  then have "last (xs @ ''.png'') = last (ys @ ''.json'')" by simp
  then show False by simp
qed

lemma transformJSON_not_asset:
  "transformJSON ext json options = CallbackResult r \<Longrightarrow> type r = Module"
  by (auto simp add: transformJSON_def Let_def
      split: option.splits sum.splits if_splits prod.splits)

lemma transformVariants_not_asset:
  "snd (transformVariants ext src options) = CallbackResult r \<Longrightarrow> type r \<noteq> Asset"
  by (auto simp add: transformVariants_def Let_def
      split: prod.splits sum.splits if_splits option.splits)

lemma source_path:
  "\<not> endsWith (filename options) ''.png'' \<Longrightarrow> \<not> endsWith (filename options) ''.json''
   \<Longrightarrow> transformModule ext content options
       = transformVariants ext (toString_utf8 ext content) options"
  by (simp add: transformModule_def Let_def)

text \<open>
  C7, as amended. The path depends on the file name alone. A name that ends in \<open>.png\<close>,
  the one asset test of the code, goes to \<open>transformAsset\<close>; a name that ends in \<open>.json\<close>
  goes to \<open>transformJSON\<close>; every other name, that of another image type too, goes to the
  path of source code. No name passes both tests, so one path is taken, and a result of
  type asset comes from a \<open>.png\<close> name and from no other.
\<close>

theorem dispatch_by_filename:
  "(endsWith (filename options) ''.png''
      \<longrightarrow> transformModule ext content options = ([], transformAsset content options))
   \<and> (endsWith (filename options) ''.json''
      \<longrightarrow> transformModule ext content options
           = ([], transformJSON ext (toString_utf8 ext content) options))
   \<and> (\<not> endsWith (filename options) ''.png'' \<and> \<not> endsWith (filename options) ''.json''
      \<longrightarrow> transformModule ext content options
           = transformVariants ext (toString_utf8 ext content) options)
   \<and> \<not> (endsWith (filename options) ''.png'' \<and> endsWith (filename options) ''.json'')
   \<and> ((\<exists>r. snd (transformModule ext content options) = CallbackResult r \<and> type r = Asset)
        \<longleftrightarrow> endsWith (filename options) ''.png'')"
proof -
  have excl: "\<not> (endsWith (filename options) ''.png'' \<and> endsWith (filename options) ''.json'')"
    by (rule png_not_json)
  have a: "endsWith (filename options) ''.png''
      \<longrightarrow> transformModule ext content options = ([], transformAsset content options)"
    by (simp add: transformModule_def)
  have j: "endsWith (filename options) ''.json''
      \<longrightarrow> transformModule ext content options
           = ([], transformJSON ext (toString_utf8 ext content) options)"
    using excl by (auto simp add: transformModule_def Let_def)
  have v: "\<not> endsWith (filename options) ''.png'' \<and> \<not> endsWith (filename options) ''.json''
      \<longrightarrow> transformModule ext content options
           = transformVariants ext (toString_utf8 ext content) options"
    by (simp add: transformModule_def Let_def)
  have k: "(\<exists>r. snd (transformModule ext content options) = CallbackResult r \<and> type r = Asset)
        \<longleftrightarrow> endsWith (filename options) ''.png''"
  proof (cases "endsWith (filename options) ''.png''")
    case True
    then show ?thesis by (simp add: transformModule_def transformAsset_def)
  next
    case False
    show ?thesis
    proof (cases "endsWith (filename options) ''.json''")
      case True
      with j False show ?thesis
        by (auto dest: transformJSON_not_asset)
    next
      case json: False
      with v False show ?thesis
        by (auto dest: transformVariants_not_asset)
    qed
  qed
  from a j v excl k show ?thesis by blast
qed

theorem dispatch_by_filename_witness:
  "endsWith (filename (ex_options ''icon.png'' None None)) ''.png''
   \<and> transformModule ex_ext [0x89] (ex_options ''icon.png'' None None)
       = ([], transformAsset [0x89] (ex_options ''icon.png'' None None))
   \<and> endsWith (filename (ex_options ''foo.json'' None None)) ''.json''
   \<and> transformModule ex_ext [0x5B, 0x5D] (ex_options ''foo.json'' None None)
       = ([], transformJSON ex_ext ''[]'' (ex_options ''foo.json'' None None))
   \<and> \<not> endsWith (filename (ex_options ''index.js'' None None)) ''.png''
   \<and> \<not> endsWith (filename (ex_options ''index.js'' None None)) ''.json''
   \<and> transformModule ex_ext [] (ex_options ''index.js'' None None)
       = transformVariants ex_ext '''' (ex_options ''index.js'' None None)"
proof -
  have a: "endsWith (filename (ex_options ''icon.png'' None None)) ''.png''"
    by (simp add: ex_eval)
  have j: "endsWith (filename (ex_options ''foo.json'' None None)) ''.json''"
    by (simp add: ex_eval)
  have v: "\<not> endsWith (filename (ex_options ''index.js'' None None)) ''.png''"
    "\<not> endsWith (filename (ex_options ''index.js'' None None)) ''.json''"
    by (simp_all add: ex_eval)
  have t: "toString_utf8 ex_ext [0x5B, 0x5D] = ''[]''" "toString_utf8 ex_ext [] = ''''"
    by (simp_all add: ex_eval char_of_def bit_Suc_0_iff)
  from dispatch_by_filename [of "ex_options ''icon.png'' None None" ex_ext "[0x89]"]
    dispatch_by_filename [of "ex_options ''foo.json'' None None" ex_ext "[0x5B, 0x5D]"]
    dispatch_by_filename [of "ex_options ''index.js'' None None" ex_ext "[]"]
    a j v t
  show ?thesis by simp
qed

text \<open>
  C7 as stated fails for an image type other than PNG: the name \<open>photo.jpg\<close> passes
  neither test, the transformer is called on the file, and the result is a module.
\<close>

theorem jpg_takes_source_path:
  "\<not> endsWith (filename (ex_options ''photo.jpg'' None None)) ''.png''
   \<and> fst (transformModule ex_ext [0xFF, 0xD8] (ex_options ''photo.jpg'' None None)) = [''default'']
   \<and> (\<exists>r. snd (transformModule ex_ext [0xFF, 0xD8] (ex_options ''photo.jpg'' None None))
             = CallbackResult r
          \<and> type r = Module \<and> assetContent r = None)"
  by (simp add: transformModule_def transformVariants_def series_def assign_def Let_def ex_eval)

section \<open>The asset path\<close>

text \<open>
  C5. A file whose name ends in \<open>.png\<close> (the asset test of the code) gives a result, with
  no transformer call, that has no variant results, empty code, no hasteID and type
  asset; its assetContent is the base64 text of the bytes, and decoding that text gives the
  bytes back.
\<close>

theorem asset_result_roundtrip:
  assumes "endsWith (filename options) ''.png''"
  shows "\<exists>r s. transformModule ext content options = ([], CallbackResult r)
           \<and> transformed r = [] \<and> code r = '''' \<and> hasteID r = None \<and> type r = Asset
           \<and> assetContent r = Some s \<and> base64_decode s = Some content"
  using assms by (simp add: transformModule_def transformAsset_def base64_roundtrip)

theorem asset_result_roundtrip_witness:
  "endsWith (filename (ex_options ''icon.png'' None None)) ''.png''
   \<and> (\<exists>r s. transformModule ex_ext [0x89, 0x50, 0x4E, 0x47] (ex_options ''icon.png'' None None)
            = ([], CallbackResult r)
          \<and> transformed r = [] \<and> code r = '''' \<and> hasteID r = None \<and> type r = Asset
          \<and> assetContent r = Some s \<and> s = ''iVBORw==''
          \<and> base64_decode s = Some [0x89, 0x50, 0x4E, 0x47])"
proof -
  have png: "endsWith (filename (ex_options ''icon.png'' None None)) ''.png''"
    by (simp add: ex_options_def endsWith_def suffix_to_prefix)
  have enc: "base64_encode [0x89, 0x50, 0x4E, 0x47] = ''iVBORw==''"
    by (simp add: base64_char_def base64_alphabet_def)
  from asset_result_roundtrip [OF png, of ex_ext "[0x89, 0x50, 0x4E, 0x47]"]
  obtain r s where
    r: "transformModule ex_ext [0x89, 0x50, 0x4E, 0x47] (ex_options ''icon.png'' None None)
          = ([], CallbackResult r)"
    and rest: "transformed r = []" "code r = ''''" "hasteID r = None" "type r = Asset"
      "assetContent r = Some s" "base64_decode s = Some [0x89, 0x50, 0x4E, 0x47]"
    by blast
  from r png have "assetContent r = Some (base64_encode [0x89, 0x50, 0x4E, 0x47])"
    by (auto simp add: transformModule_def transformAsset_def)
  with rest enc have "s = ''iVBORw==''" by simp
  with r rest png show ?thesis by blast
qed

section \<open>The JSON path\<close>

text \<open>
  C8. When \<open>JSON.parse\<close> rejects the text of a \<open>.json\<close> file, \<open>transformModule\<close> throws the
  SyntaxError to its caller: no transformer is called and no result is handed to the
  callback.
\<close>

theorem malformed_json_throws:
  assumes "endsWith (filename options) ''.json''"
    and "JSON_parse ext (toString_utf8 ext content) = None"
  shows "transformModule ext content options = ([], Throws SyntaxError)
         \<and> (\<forall>r. snd (transformModule ext content options) \<noteq> CallbackResult r)"
proof -
  from assms(1) have "\<not> endsWith (filename options) ''.png''"
    using png_not_json by blast
  with assms show ?thesis
    by (simp add: transformModule_def Let_def transformJSON_def)
qed

theorem malformed_json_throws_witness:
  "endsWith (filename (ex_options ''bad.json'' None None)) ''.json''
   \<and> JSON_parse ex_ext (toString_utf8 ex_ext [0x7B]) = None
   \<and> transformModule ex_ext [0x7B] (ex_options ''bad.json'' None None) = ([], Throws SyntaxError)"
proof -
  have h1: "endsWith (filename (ex_options ''bad.json'' None None)) ''.json''"
    by (simp add: ex_eval)
  have h2: "JSON_parse ex_ext (toString_utf8 ex_ext [0x7B]) = None"
    by (simp add: ex_eval char_of_def bit_Suc_0_iff)
  from malformed_json_throws [OF h1 h2] h1 h2 show ?thesis by simp
qed

text \<open>
  For a parsed value other than \<open>null\<close> the JSON path gives a result: every variant but
  one named \<open>__proto__\<close> gets the same code, the text after \<open>module.exports =\<close> inside one
  call of \<open>__d\<close>, with no source map, and hasteID is the \<open>name\<close> property of the value.
\<close>

lemma transformJSON_result:
  assumes "JSON_parse ext json = Some v" and "v \<noteq> JNull"
  shows "\<exists>r nm. transformJSON ext json options = CallbackResult r
           \<and> get_property v ''name'' = Inr nm \<and> hasteID r = nm
           \<and> code r = json \<and> type r = Module \<and> assetContent r = None
           \<and> transformed r
               = List.map (\<lambda>key. (key,
                   \<lparr>TransformResult.code =
                      ''__d(function(global, require, module, exports) { module.exports = ''
                      @ [CHR 0x0A] @ json @ [CHR 0x0A] @ ''});'',
                    map' = None, dependencies = [], dependencyMapName = None\<rparr>))
                   (Object_keys (tasked_variants options))"
proof -
  let ?keys = "Object_keys (DAList.impl_of (variants_or_default options))"
  have d: "distinct ?keys"
    by (simp add: Object_keys_def)
  note t = fold_assign_keys [OF d]
  have k: "filter (\<lambda>key. key \<noteq> ''__proto__'') ?keys = Object_keys (tasked_variants options)"
    by (simp add: Object_keys_def tasked_variants_def filter_map comp_def case_prod_unfold)
  have p: "\<exists>x. get_property v k = Inr x" for k
    using assms(2) by (cases v) simp_all
  from p [of "''name''"] obtain nm where nm: "get_property v ''name'' = Inr nm" by blast
  from p [of "''main''"] obtain mn where mn: "get_property v ''main'' = Inr mn" by blast
  from p [of "''browser''"] obtain br where br: "get_property v ''browser'' = Inr br" by blast
  from p [of "''react-native''"] obtain rn where rn: "get_property v ''react-native'' = Inr rn"
    by blast
  show ?thesis
    by (simp add: transformJSON_def assms(1) Let_def t k nm mn br rn json_code_def
        moduleFactoryParameters_def)
qed

text \<open>
  The text \<open>null\<close> is accepted by \<open>JSON.parse\<close>, and the read of \<open>value.name\<close> then throws.
\<close>

lemma null_json_throws:
  assumes "endsWith (filename options) ''.json''"
    and "JSON_parse ext (toString_utf8 ext content) = Some JNull"
  shows "transformModule ext content options = ([], Throws TypeError)"
proof -
  from assms(1) have "\<not> endsWith (filename options) ''.png''"
    using png_not_json by blast
  with assms show ?thesis
    by (simp add: transformModule_def Let_def transformJSON_def)
qed

text \<open>
  C4. A \<open>.json\<close> file whose text is \<open>null\<close>: \<open>JSON.parse\<close> accepts it, and
  \<open>transformModule\<close> throws a TypeError; no variant gets code.
\<close>

theorem null_json_type_error:
  "JSON_parse ex_ext (toString_utf8 ex_ext [0x6E, 0x75, 0x6C, 0x6C]) = Some JNull
   \<and> transformModule ex_ext [0x6E, 0x75, 0x6C, 0x6C] (ex_options ''data.json'' None None)
       = ([], Throws TypeError)"
  by (simp add: transformModule_def transformJSON_def ex_eval char_of_def bit_Suc_0_iff)

section \<open>Wrapping a module\<close>

text \<open>
  C3. The tree that \<open>wrapModule\<close> builds has one top-level statement and no directive of its
  own: the call of \<open>__d\<close> on one argument, a function expression with the parameters
  global, require, module, exports and the name of the dependency map, in this order,
  whose body is the body of the program it was given, directives and statements as they
  were. For a variant that is not a polyfill (the flag undefined or false) the generator
  is run on this tree, built from what \<open>collectDependencies\<close> hands back.
\<close>

theorem wrapModule_single_registration:
  "wrapModule tree depMapName =
     File (Program
       [ExpressionStatement
          (CallExpression (Identifier ''__d'')
             [FunctionExpression (Identifier '''')
                [Identifier ''global'', Identifier ''require'', Identifier ''module'',
                 Identifier ''exports'', Identifier depMapName]
                (BlockStatement (body (program tree)) (directives (program tree)))])]
       [])
   \<and> TransformResult.code (makeResult ext tree fname src None)
       = gen_code (generate ext
           (wrapModule (snd (snd (collectDependencies ext tree)))
              (fst (snd (collectDependencies ext tree)))) fname src)
   \<and> makeResult ext tree fname src (Some False) = makeResult ext tree fname src None"
  by (simp add: wrapModule_def functionFromProgram_def moduleFactoryParameters_def
      makeIdentifier_def makeResult_def Let_def split: prod.splits)

section \<open>Polyfills\<close>

lemma wrapPolyfill_shape:
  "wrapPolyfill tree =
     File (Program
       [ExpressionStatement
          (CallExpression
             (FunctionExpression (Identifier '''') [Identifier ''global'']
                (BlockStatement (body (program tree)) (directives (program tree))))
             [Identifier ''this''])]
       [])"
  by (simp add: wrapPolyfill_def functionFromProgram_def polyfillFactoryParameters_def
      makeIdentifier_def)

lemma makeResult_polyfill:
  "makeResult ext tree fname src (Some True) =
     \<lparr>TransformResult.code = gen_code (generate ext (wrapPolyfill tree) fname src),
      map' = gen_map (generate ext (wrapPolyfill tree) fname src),
      dependencies = [], dependencyMapName = None\<rparr>"
  by (simp add: makeResult_def Let_def)

text \<open>
  C6. With \<open>options.polyfill\<close> true and every transformer call returning, the result is
  a script with one entry per variant that got a task; each entry has no dependencies, and
  its code is generated from a tree of one statement: the call, on the one argument
  \<open>this\<close>, of a function expression with the one parameter \<open>global\<close> whose body is the
  body of the variant's program.
\<close>

theorem polyfill_wrapper:
  assumes png: "\<not> endsWith (filename options) ''.png''"
    and json: "\<not> endsWith (filename options) ''.json''"
    and pf: "polyfill options = Some True"
    and ok: "\<forall>(nm, cfg) \<in> set (DAList.impl_of (variants_or_default options)).
               \<not> isl (transform (transformer options) (toString_utf8 ext content)
                        (filename options) cfg)"
  shows "\<exists>r. snd (transformModule ext content options) = CallbackResult r
           \<and> type r = Script
           \<and> Object_keys (transformed r) = Object_keys (tasked_variants options)
           \<and> (\<forall>(nm, res) \<in> set (transformed r).
                 \<exists>cfg t. (nm, cfg) \<in> set (DAList.impl_of (variants_or_default options))
                   \<and> transform (transformer options) (toString_utf8 ext content)
                        (filename options) cfg = Inr t
                   \<and> dependencies res = []
                   \<and> TransformResult.code res
                       = gen_code (generate ext
                           (File (Program
                              [ExpressionStatement
                                 (CallExpression
                                    (FunctionExpression (Identifier '''') [Identifier ''global'']
                                       (BlockStatement (body (program (ast t)))
                                          (directives (program (ast t)))))
                                    [Identifier ''this''])]
                              []))
                           (filename options) (toString_utf8 ext content)))"
proof -
  define src where "src = toString_utf8 ext content"
  define tf where "tf = transform (transformer options) src (filename options)"
  define vs where "vs = DAList.impl_of (variants_or_default options)"
  define tv where "tv = tasked_variants options"
  have sub: "set tv \<subseteq> set vs"
    unfolding tv_def vs_def by (rule tasked_variants_keys(3))
  have "\<forall>(nm, cfg) \<in> set (tasked_variants options).
      \<not> isl (transform (transformer options) src (filename options) cfg)"
    using ok sub unfolding src_def tv_def vs_def by blast
  from transformVariants_all_return [OF this, of ext] obtain r where
    r: "transformVariants ext src options = (List.map fst tv, CallbackResult r)"
    and tr: "transformed r
        = List.map (\<lambda>(nm, cfg). (nm, makeResult ext (ast (projr (tf cfg))) (filename options) src
                                     (polyfill options))) tv"
    and ty: "type r = (if polyfill options = Some True then Script else Module)"
    unfolding tf_def tv_def by blast
  have res: "snd (transformModule ext content options) = CallbackResult r"
    using r png json by (simp add: source_path src_def)
  have keys: "Object_keys (transformed r) = Object_keys tv"
    by (simp add: tr Object_keys_def comp_def case_prod_beta)
  have each: "\<exists>cfg t. (nm, cfg) \<in> set vs \<and> tf cfg = Inr t \<and> dependencies res = []
      \<and> TransformResult.code res
          = gen_code (generate ext (wrapPolyfill (ast t)) (filename options) src)"
    if mem: "(nm, res) \<in> set (transformed r)" for nm res
  proof -
    from mem obtain cfg where cfg: "(nm, cfg) \<in> set tv"
      and res: "res = makeResult ext (ast (projr (tf cfg))) (filename options) src (Some True)"
      unfolding tr pf by auto
    from cfg sub have cfg': "(nm, cfg) \<in> set vs" by blast
    from ok cfg' obtain t where t: "tf cfg = Inr t"
      unfolding vs_def tf_def src_def by (cases "tf cfg") (auto simp add: tf_def src_def)
    from cfg' t res show ?thesis
      by (intro exI [of _ cfg] exI [of _ t]) (simp add: makeResult_polyfill)
  qed
  from res ty pf keys each show ?thesis
    unfolding wrapPolyfill_shape src_def tf_def vs_def tv_def
    by (intro exI [of _ r] conjI) auto
qed

theorem polyfill_wrapper_witness:
  "\<not> endsWith (filename (ex_options ''shim.js'' (Some True) (Some ex_two_variants))) ''.png''
   \<and> \<not> endsWith (filename (ex_options ''shim.js'' (Some True) (Some ex_two_variants))) ''.json''
   \<and> polyfill (ex_options ''shim.js'' (Some True) (Some ex_two_variants)) = Some True
   \<and> list_all (\<lambda>(nm, cfg).
          \<not> isl (transform (transformer (ex_options ''shim.js'' (Some True) (Some ex_two_variants)))
                   (toString_utf8 ex_ext [])
                   (filename (ex_options ''shim.js'' (Some True) (Some ex_two_variants))) cfg))
        (DAList.impl_of
           (variants_or_default (ex_options ''shim.js'' (Some True) (Some ex_two_variants))))
   \<and> (\<exists>r. snd (transformModule ex_ext []
                  (ex_options ''shim.js'' (Some True) (Some ex_two_variants))) = CallbackResult r
          \<and> type r = Script
          \<and> Object_keys (transformed r) = [''a'', ''b'']
          \<and> list_all (\<lambda>(nm, res). dependencies res = []) (transformed r))"
proof -
  let ?o = "ex_options ''shim.js'' (Some True) (Some ex_two_variants)"
  have h1: "\<not> endsWith (filename ?o) ''.png''" by (simp add: ex_eval)
  have h2: "\<not> endsWith (filename ?o) ''.json''" by (simp add: ex_eval)
  have h3: "polyfill ?o = Some True" by (simp add: ex_eval)
  have h4: "\<forall>(nm, cfg) \<in> set (DAList.impl_of (variants_or_default ?o)).
      \<not> isl (transform (transformer ?o) (toString_utf8 ex_ext []) (filename ?o) cfg)"
    by (simp add: ex_eval)
  from polyfill_wrapper [OF h1 h2 h3 h4] obtain r where
    res: "snd (transformModule ex_ext [] ?o) = CallbackResult r"
    and ty: "type r = Script"
    and keys: "Object_keys (transformed r) = Object_keys (tasked_variants ?o)"
    and deps: "\<forall>(nm, res) \<in> set (transformed r). dependencies res = []"
    by fast
  have ab: "Object_keys (tasked_variants ?o) = [''a'', ''b'']"
    by (simp add: ex_eval)
  have h4': "list_all (\<lambda>(nm, cfg).
      \<not> isl (transform (transformer ?o) (toString_utf8 ex_ext []) (filename ?o) cfg))
    (DAList.impl_of (variants_or_default ?o))"
    using h4 by (simp add: list_all_iff)
  from deps have deps': "list_all (\<lambda>(nm, res). dependencies res = []) (transformed r)"
    by (simp add: list_all_iff)
  from res ty keys ab deps' h1 h2 h3 h4' show ?thesis by simp
qed

section \<open>Failure of a variant\<close>




section \<open>The keys of the result\<close>

text \<open>
  When the transformer returns for every variant that has a task, the result has the
  keys of these variants, in the same order: all the keys of \<open>variants\<close> when none is
  \<open>__proto__\<close>, and the one key \<open>default\<close> when the option is undefined.
\<close>

lemma variant_keys_without_proto:
  assumes png: "\<not> endsWith (filename options) ''.png''"
    and json: "\<not> endsWith (filename options) ''.json''"
    and ok: "\<forall>(nm, cfg) \<in> set (tasked_variants options).
               \<not> isl (transform (transformer options) (toString_utf8 ext content)
                        (filename options) cfg)"
  shows "\<exists>r. snd (transformModule ext content options) = CallbackResult r
           \<and> Object_keys (transformed r) = Object_keys (tasked_variants options)
           \<and> (''__proto__'' \<notin> set (Object_keys (DAList.impl_of (variants_or_default options)))
                \<longrightarrow> Object_keys (transformed r)
                      = Object_keys (DAList.impl_of (variants_or_default options)))
           \<and> (variants options = None \<longrightarrow> Object_keys (transformed r) = [''default''])"
proof -
  define src where "src = toString_utf8 ext content"
  from transformVariants_all_return [of options src ext] ok obtain r where
    r: "transformVariants ext src options
          = (List.map fst (tasked_variants options), CallbackResult r)"
    and tr: "transformed r
        = List.map (\<lambda>(nm, cfg).
            (nm, makeResult ext
                   (ast (projr (transform (transformer options) src (filename options) cfg)))
                   (filename options) src (polyfill options)))
            (tasked_variants options)"
    unfolding src_def by blast
  have res: "snd (transformModule ext content options) = CallbackResult r"
    using r png json by (simp add: source_path src_def)
  have keys: "Object_keys (transformed r) = Object_keys (tasked_variants options)"
    by (simp add: tr Object_keys_def comp_def case_prod_beta)
  have all: "tasked_variants options = DAList.impl_of (variants_or_default options)"
    if "''__proto__'' \<notin> set (Object_keys (DAList.impl_of (variants_or_default options)))"
    using that unfolding tasked_variants_def Object_keys_def
    by (intro filter_True) force
  have dflt: "Object_keys (tasked_variants options) = [''default'']" if "variants options = None"
    using that
    by (simp add: tasked_variants_def variants_or_default_def defaultVariants_def Object_keys_def
        DAList.update.rep_eq DAList.empty.rep_eq)
  from res keys all dflt show ?thesis by (intro exI [of _ r]) simp
qed

text \<open>
  C2. A variant named \<open>__proto__\<close>, as an own property of \<open>variants\<close>, with a transformer
  that returns for it: no task is made for it, no transformer call is made for it, and no
  result handed to the callback has the key \<open>__proto__\<close>, alone or beside a variant
  \<open>main\<close>. The keys of the result are not those of \<open>variants\<close>.
\<close>

theorem proto_variant_lost:
  "Object_keys (DAList.impl_of
      (variants_or_default (ex_options ''a.js'' None (Some ex_proto_variant)))) = [''__proto__'']
   \<and> \<not> isl (transform (transformer (ex_options ''a.js'' None (Some ex_proto_variant)))
              (toString_utf8 ex_ext []) (filename (ex_options ''a.js'' None (Some ex_proto_variant)))
              (JObject []))
   \<and> fst (transformModule ex_ext [] (ex_options ''a.js'' None (Some ex_proto_variant))) = []
   \<and> \<not> (\<exists>r. snd (transformModule ex_ext [] (ex_options ''a.js'' None (Some ex_proto_variant)))
             = CallbackResult r
           \<and> ''__proto__'' \<in> set (Object_keys (transformed r)))
   \<and> Object_keys (DAList.impl_of
        (variants_or_default (ex_options ''a.js'' None (Some ex_proto_and_main))))
       = [''__proto__'', ''main'']
   \<and> \<not> (\<exists>r. snd (transformModule ex_ext [] (ex_options ''a.js'' None (Some ex_proto_and_main)))
             = CallbackResult r
           \<and> ''__proto__'' \<in> set (Object_keys (transformed r)))"
  by (simp add: transformModule_def transformVariants_def series_def assign_def Let_def ex_eval)

section \<open>An empty variants object\<close>

text \<open>
  C10. On the path of source code, with \<open>variants\<close> given as the empty object, no
  transformer call is made and the callback gets a result of type module (script for a
  polyfill) whose \<open>transformed\<close> is empty. The default variant is used when the option
  is undefined: there the one call made is that of \<open>default\<close>.
\<close>

theorem empty_variants_no_default:
  assumes png: "\<not> endsWith (filename options) ''.png''"
    and json: "\<not> endsWith (filename options) ''.json''"
    and empty: "variants options = Some DAList.empty"
  shows "\<exists>r. transformModule ext content options = ([], CallbackResult r)
           \<and> transformed r = []
           \<and> type r = (if polyfill options = Some True then Script else Module)
           \<and> fst (transformModule ext content (options\<lparr>variants := None\<rparr>)) = [''default'']"
proof -
  have v: "tasked_variants options = []"
    by (simp add: tasked_variants_def variants_or_default_def empty DAList.empty.rep_eq)
  from transformVariants_all_return [of options "toString_utf8 ext content" ext] obtain r where
    "transformVariants ext (toString_utf8 ext content) options = ([], CallbackResult r)"
    "transformed r = []" "type r = (if polyfill options = Some True then Script else Module)"
    unfolding v by auto
  moreover have "fst (transformVariants ext (toString_utf8 ext content)
      (options\<lparr>variants := None\<rparr>)) = [''default'']"
    by (simp add: transformVariants_def variants_or_default_def defaultVariants_def
        DAList.update.rep_eq DAList.empty.rep_eq series_def assign_def Let_def
        split: sum.splits)
  ultimately show ?thesis using png json by (simp add: source_path)
qed

theorem empty_variants_no_default_witness:
  "\<not> endsWith (filename (ex_options ''a.js'' None (Some DAList.empty))) ''.png''
   \<and> \<not> endsWith (filename (ex_options ''a.js'' None (Some DAList.empty))) ''.json''
   \<and> variants (ex_options ''a.js'' None (Some DAList.empty)) = Some DAList.empty
   \<and> (\<exists>r. transformModule ex_ext [] (ex_options ''a.js'' None (Some DAList.empty))
             = ([], CallbackResult r)
          \<and> transformed r = [] \<and> type r = Module)"
proof -
  let ?o = "ex_options ''a.js'' None (Some DAList.empty)"
  have h1: "\<not> endsWith (filename ?o) ''.png''" by (simp add: ex_eval)
  have h2: "\<not> endsWith (filename ?o) ''.json''" by (simp add: ex_eval)
  have h3: "variants ?o = Some DAList.empty" by (simp add: ex_eval)
  have p: "polyfill ?o = None" by (simp add: ex_eval)
  from empty_variants_no_default [OF h1 h2 h3, of ex_ext "[]"] obtain r where
    "transformModule ex_ext [] ?o = ([], CallbackResult r)" "transformed r = []"
    "type r = (if polyfill ?o = Some True then Script else Module)"
    by blast
  with p h1 h2 h3 show ?thesis by simp
qed

section \<open>The order of the transformer calls\<close>




end
